theory Spec2Isabelle
  imports Main "HOL-Library.Sublist"
begin

section \<open>Shared data: test results and JavaScript failures\<close>

text \<open>
  Failures of the JavaScript code are values. \<open>TypeError\<close> is what reading a property of
  \<open>undefined\<close> raises, \<open>Rejected\<close> is a rejection (or throw) of reporter code with its
  message, \<open>ProcessExit\<close> is \<open>process.exit(code)\<close>.
\<close>

datatype error = TypeError | Rejected string | ProcessExit nat

text \<open>
  One entry of \<open>testResults\<close> inside a test-file result; only \<open>title\<close> is read by the
  code under study.
\<close>

record assertion_result =
  title :: string

text \<open>
  The result object of one test file (\<open>TestResult\<close>). A field that holds \<open>undefined\<close> is
  \<open>None\<close>. The record is extensible, so every statement about a
  \<open>test_result_scheme\<close> covers result objects with any further fields.
\<close>

record test_result =
  testFilePath :: string
  testResults :: "assertion_result list"
  sourceMaps :: "(string \<times> string) list option"
  coverage :: "string option"
  console :: "string list option"

section \<open>TestNamePatternPrompt: matching over cached titles\<close>

text \<open>
  \<open>RegExp\<close> is a built-in of the JavaScript runtime. The prompt is modelled over an
  arbitrary engine: \<open>RegExp_new pattern flags\<close> is \<open>None\<close> when the constructor throws
  (the pattern does not compile), and \<open>RegExp_test regex text\<close> is \<open>regex.test(text)\<close>.
  The source never uses the \<open>g\<close> or \<open>y\<close> flag, so \<open>test\<close> carries no state.
\<close>

record 'rx regexp_engine =
  RegExp_new :: "string \<Rightarrow> string \<Rightarrow> 'rx option"
  RegExp_test :: "'rx \<Rightarrow> string \<Rightarrow> bool"

text \<open>
  The prompt object. \<open>_cachedTestResults\<close> is declared but not assigned by the
  constructor, so it is \<open>undefined\<close> (\<open>None\<close>) until \<open>updateCachedTestResults\<close> runs.
\<close>

record prompt_state =
  cachedTestResults :: "test_result list option"
  currentUsageRows :: nat

text \<open>The inner \<open>forEach\<close>: push every matching title of one record, in stored order.\<close>

fun matchTitles :: "'rx regexp_engine \<Rightarrow> 'rx \<Rightarrow> assertion_result list \<Rightarrow> string list \<Rightarrow> string list" where
  "matchTitles E regex [] matchedTests = matchedTests"
| "matchTitles E regex (a # as) matchedTests =
     matchTitles E regex as
       (if RegExp_test E regex (title a) then matchedTests @ [title a] else matchedTests)"

text \<open>The outer \<open>forEach\<close> over the cached records.\<close>

fun matchRecords :: "'rx regexp_engine \<Rightarrow> 'rx \<Rightarrow> test_result list \<Rightarrow> string list \<Rightarrow> string list" where
  "matchRecords E regex [] matchedTests = matchedTests"
| "matchRecords E regex (r # rs) matchedTests =
     matchRecords E regex rs (matchTitles E regex (testResults r) matchedTests)"

text \<open>
  \<open>_getMatchedTests(pattern)\<close>: the \<open>try\<close>/\<open>catch\<close> around the constructor returns \<open>[]\<close>;
  otherwise the cache is scanned, and \<open>undefined.forEach\<close> is a \<open>TypeError\<close>.
\<close>

definition getMatchedTests :: "'rx regexp_engine \<Rightarrow> prompt_state \<Rightarrow> string \<Rightarrow> error + string list" where
  "getMatchedTests E this pattern =
     (case RegExp_new E pattern ''i'' of
        None \<Rightarrow> Inr []
      | Some regex \<Rightarrow>
          (case cachedTestResults this of
             None \<Rightarrow> Inl TypeError
           | Some cached \<Rightarrow> Inr (matchRecords E regex cached [])))"

text \<open>
  \<open>updateCachedTestResults(testResults)\<close> stores \<open>testResults || []\<close>. An array is truthy
  even when empty; \<open>null\<close> and \<open>undefined\<close> (\<open>None\<close>) are not.
\<close>

definition updateCachedTestResults :: "test_result list option \<Rightarrow> prompt_state \<Rightarrow> prompt_state" where
  "updateCachedTestResults arg this =
     this\<lparr>cachedTestResults := Some (case arg of None \<Rightarrow> [] | Some rs \<Rightarrow> rs)\<rparr>"

subsection \<open>A concrete engine for literal patterns\<close>

text \<open>
  An engine instance for concrete runs. On a pattern without any syntax character
  of the regular-expression grammar it behaves as the runtime does: the pattern compiles
  and \<open>test\<close> searches the text for the pattern, ignoring ASCII case when the flags
  contain \<open>i\<close>. Every other pattern is reported as not compiling, which is what the
  runtime does for an unbalanced group such as \<open>(\<close>; the instance is not meant as a
  model of the full grammar.
\<close>

definition toLowerCase :: "char \<Rightarrow> char" where
  "toLowerCase c =
     (let n = (of_char c :: nat) in if 65 \<le> n \<and> n \<le> 90 then char_of (n + 32) else c)"

fun startsWith :: "string \<Rightarrow> string \<Rightarrow> bool" where
  "startsWith text [] = True"
| "startsWith [] (p # ps) = False"
| "startsWith (c # cs) (p # ps) = (c = p \<and> startsWith cs ps)"

fun includesText :: "string \<Rightarrow> string \<Rightarrow> bool" where
  "includesText [] p = startsWith [] p"
| "includesText (c # cs) p = (startsWith (c # cs) p \<or> includesText cs p)"

definition syntaxCharacters :: "char set" where
  "syntaxCharacters = set (''^$.*+?()[]{}|'' @ [CHR 0x5C])"

definition literal_engine :: "(string \<times> bool) regexp_engine" where
  "literal_engine =
     \<lparr>RegExp_new = (\<lambda>pattern flags.
        if list_ex (\<lambda>c. c \<in> syntaxCharacters) pattern then None
        else Some (pattern, CHR ''i'' \<in> set flags)),
      RegExp_test = (\<lambda>(pattern, ignoreCase) text.
        if ignoreCase then includesText (map toLowerCase text) (map toLowerCase pattern)
        else includesText text pattern)\<rparr>"

definition cachedTitles :: "string list \<Rightarrow> test_result" where
  "cachedTitles ts =
     \<lparr>testFilePath = ''sum.test.js'', testResults = map (\<lambda>t. \<lparr>title = t\<rparr>) ts,
      sourceMaps = None, coverage = None, console = None\<rparr>"

definition sumPrompt :: prompt_state where
  "sumPrompt =
     \<lparr>cachedTestResults = Some [cachedTitles [''adds numbers'', ''subtracts numbers'']],
      currentUsageRows = 5\<rparr>"

section \<open>ReporterDispatcher\<close>

text \<open>
  A reporter is an object whose methods are all optional; a method that is absent is
  \<open>None\<close>, and presence alone decides whether the dispatcher calls it. A hook is
  arbitrary reporter code, called and awaited. It acts on mutable objects and it may
  reject, so a hook returns the state as it leaves it together with the rejection, if
  any (\<open>None\<close> when the awaited call is fulfilled). For a file-result hook the state is
  the \<open>testResult\<close> object it is handed, the object the dispatcher assigns to afterwards;
  for a file-start hook it is whatever the reporters can reach (their own state, their
  output), of an arbitrary type. The \<open>test\<close> and aggregated \<open>results\<close> arguments are
  passed through.
\<close>

record ('t, 'r, 'a, 'w) reporter =
  onTestFileResult_hook :: "('t \<Rightarrow> 'r \<Rightarrow> 'a \<Rightarrow> 'r \<times> error option) option"
  onTestResult_hook :: "('t \<Rightarrow> 'r \<Rightarrow> 'a \<Rightarrow> 'r \<times> error option) option"
  onTestFileStart_hook :: "('t \<Rightarrow> 'w \<Rightarrow> 'w \<times> error option) option"
  onTestStart_hook :: "('t \<Rightarrow> 'w \<Rightarrow> 'w \<times> error option) option"

record ('t, 'r, 'a, 'w) dispatcher =
  reporters :: "('t, 'r, 'a, 'w) reporter list"

definition ReporterDispatcher_new :: "('t, 'r, 'a, 'w) dispatcher" where
  "ReporterDispatcher_new = \<lparr>reporters = []\<rparr>"

definition register :: "('t, 'r, 'a, 'w) reporter \<Rightarrow> ('t, 'r, 'a, 'w) dispatcher \<Rightarrow> ('t, 'r, 'a, 'w) dispatcher" where
  "register reporter this = this\<lparr>reporters := reporters this @ [reporter]\<rparr>"

text \<open>\<open>unregister\<close>, with \<open>reporter instanceof ReporterClass\<close> as a predicate.\<close>

definition unregister :: "(('t, 'r, 'a, 'w) reporter \<Rightarrow> bool) \<Rightarrow> ('t, 'r, 'a, 'w) dispatcher \<Rightarrow> ('t, 'r, 'a, 'w) dispatcher" where
  "unregister instanceofClass this =
     this\<lparr>reporters := filter (\<lambda>reporter. \<not> instanceofClass reporter) (reporters this)\<rparr>"

text \<open>
  The dispatcher's calls are recorded as they happen: the position of the reporter in
  \<open>_reporters\<close> and the name of the method called on it.
\<close>

datatype hook_name = OnTestFileResult | OnTestResult | OnTestFileStart | OnTestStart

type_synonym call = "nat \<times> hook_name"

text \<open>
  The \<open>for ... of\<close> loop of \<open>onTestFileResult\<close>, from position \<open>i\<close> on. It returns the
  calls made, the \<open>testResult\<close> object as it is when the loop is left, and the rejection
  that ended it, if any: a rejected \<open>await\<close> leaves the loop and the method at once.
\<close>

fun fileResultLoop :: "nat \<Rightarrow> ('t, 'r, 'a, 'w) reporter list \<Rightarrow> 't \<Rightarrow> 'r \<Rightarrow> 'a \<Rightarrow> call list \<times> 'r \<times> error option" where
  "fileResultLoop i [] test testResult results = ([], testResult, None)"
| "fileResultLoop i (reporter # rest) test testResult results =
     (case onTestFileResult_hook reporter of
        Some hook \<Rightarrow>
          (case hook test testResult results of
             (testResult', Some e) \<Rightarrow> ([(i, OnTestFileResult)], testResult', Some e)
           | (testResult', None) \<Rightarrow>
               (case fileResultLoop (Suc i) rest test testResult' results of
                  (calls, out) \<Rightarrow> ((i, OnTestFileResult) # calls, out)))
      | None \<Rightarrow>
          (case onTestResult_hook reporter of
             Some hook \<Rightarrow>
               (case hook test testResult results of
                  (testResult', Some e) \<Rightarrow> ([(i, OnTestResult)], testResult', Some e)
                | (testResult', None) \<Rightarrow>
                    (case fileResultLoop (Suc i) rest test testResult' results of
                       (calls, out) \<Rightarrow> ((i, OnTestResult) # calls, out)))
           | None \<Rightarrow> fileResultLoop (Suc i) rest test testResult results))"

text \<open>
  \<open>onTestFileResult(test, testResult, results)\<close>: the loop, then the three assignments
  of \<open>undefined\<close>, which a rejection skips.
\<close>

definition onTestFileResult :: "('t, 'm test_result_scheme, 'a, 'w) dispatcher \<Rightarrow> 't \<Rightarrow> 'm test_result_scheme \<Rightarrow> 'a \<Rightarrow> call list \<times> 'm test_result_scheme \<times> error option" where
  "onTestFileResult this test testResult results =
     (case fileResultLoop 0 (reporters this) test testResult results of
        (calls, testResult', Some e) \<Rightarrow> (calls, testResult', Some e)
      | (calls, testResult', None) \<Rightarrow>
          (calls, testResult'\<lparr>sourceMaps := None, coverage := None, console := None\<rparr>, None))"

text \<open>The loop of \<open>onTestFileStart(test)\<close>, over the state the reporters act on.\<close>

fun fileStartLoop :: "nat \<Rightarrow> ('t, 'r, 'a, 'w) reporter list \<Rightarrow> 't \<Rightarrow> 'w \<Rightarrow> call list \<times> 'w \<times> error option" where
  "fileStartLoop i [] test world = ([], world, None)"
| "fileStartLoop i (reporter # rest) test world =
     (case onTestFileStart_hook reporter of
        Some hook \<Rightarrow>
          (case hook test world of
             (world', Some e) \<Rightarrow> ([(i, OnTestFileStart)], world', Some e)
           | (world', None) \<Rightarrow>
               (case fileStartLoop (Suc i) rest test world' of
                  (calls, out) \<Rightarrow> ((i, OnTestFileStart) # calls, out)))
      | None \<Rightarrow>
          (case onTestStart_hook reporter of
             Some hook \<Rightarrow>
               (case hook test world of
                  (world', Some e) \<Rightarrow> ([(i, OnTestStart)], world', Some e)
                | (world', None) \<Rightarrow>
                    (case fileStartLoop (Suc i) rest test world' of
                       (calls, out) \<Rightarrow> ((i, OnTestStart) # calls, out)))
           | None \<Rightarrow> fileStartLoop (Suc i) rest test world))"

definition onTestFileStart :: "('t, 'r, 'a, 'w) dispatcher \<Rightarrow> 't \<Rightarrow> 'w \<Rightarrow> call list \<times> 'w \<times> error option" where
  "onTestFileStart this test world = fileStartLoop 0 (reporters this) test world"

subsection \<open>The dispatch rule in the words of the specification\<close>

text \<open>
  The specification's rule, to compare the loops with. For each reporter the preferred
  method if present, else the legacy alias if present, else nothing: \<open>preferred\<close> gives
  the name and the hook chosen. \<open>chosen_spec\<close> lists the choices with the reporters'
  positions, in registration order, with one entry per reporter at most.
  \<open>invokeAll\<close> calls the chosen hooks one after the other, each on the state the one
  before left, and stops at the first that rejects: the dispatcher never catches a hook
  failure.
\<close>

definition preferred :: "'h option \<Rightarrow> 'h option \<Rightarrow> hook_name \<Rightarrow> hook_name \<Rightarrow> (hook_name \<times> 'h) option" where
  "preferred new legacy newName legacyName =
     (case new of
        Some hook \<Rightarrow> Some (newName, hook)
      | None \<Rightarrow> (case legacy of Some hook \<Rightarrow> Some (legacyName, hook) | None \<Rightarrow> None))"

definition chosen_spec :: "('rep \<Rightarrow> (hook_name \<times> 'h) option) \<Rightarrow> nat \<Rightarrow> 'rep list \<Rightarrow> (nat \<times> hook_name \<times> 'h) list" where
  "chosen_spec pick i rs =
     concat (map (\<lambda>(k, reporter).
         case pick reporter of None \<Rightarrow> [] | Some (name, hook) \<Rightarrow> [(k, name, hook)])
       (enumerate i rs))"

fun invokeAll :: "('h \<Rightarrow> 's \<Rightarrow> 's \<times> error option) \<Rightarrow> (nat \<times> hook_name \<times> 'h) list \<Rightarrow> 's \<Rightarrow> call list \<times> 's \<times> error option" where
  "invokeAll invoke [] state = ([], state, None)"
| "invokeAll invoke ((k, name, hook) # rest) state =
     (case invoke hook state of
        (state', Some e) \<Rightarrow> ([(k, name)], state', Some e)
      | (state', None) \<Rightarrow>
          (case invokeAll invoke rest state' of (calls, out) \<Rightarrow> ((k, name) # calls, out)))"

definition fileResultChoice :: "('t, 'r, 'a, 'w) reporter \<Rightarrow> (hook_name \<times> ('t \<Rightarrow> 'r \<Rightarrow> 'a \<Rightarrow> 'r \<times> error option)) option" where
  "fileResultChoice reporter =
     preferred (onTestFileResult_hook reporter) (onTestResult_hook reporter)
       OnTestFileResult OnTestResult"

definition fileStartChoice :: "('t, 'r, 'a, 'w) reporter \<Rightarrow> (hook_name \<times> ('t \<Rightarrow> 'w \<Rightarrow> 'w \<times> error option)) option" where
  "fileStartChoice reporter =
     preferred (onTestFileStart_hook reporter) (onTestStart_hook reporter)
       OnTestFileStart OnTestStart"

definition fileResult_spec :: "('t, 'r, 'a, 'w) reporter list \<Rightarrow> 't \<Rightarrow> 'r \<Rightarrow> 'a \<Rightarrow> call list \<times> 'r \<times> error option" where
  "fileResult_spec rs test testResult results =
     invokeAll (\<lambda>hook r. hook test r results) (chosen_spec fileResultChoice 0 rs) testResult"

definition fileStart_spec :: "('t, 'r, 'a, 'w) reporter list \<Rightarrow> 't \<Rightarrow> 'w \<Rightarrow> call list \<times> 'w \<times> error option" where
  "fileStart_spec rs test world =
     invokeAll (\<lambda>hook. hook test) (chosen_spec fileStartChoice 0 rs) world"

text \<open>The calls of a list of choices: positions and names, without the hooks.\<close>

definition callsOf :: "(nat \<times> hook_name \<times> 'h) list \<Rightarrow> call list" where
  "callsOf chosen = map (\<lambda>(k, name, hook). (k, name)) chosen"

subsection \<open>Sample reporters\<close>

text \<open>
  Reporters for concrete runs; a file-start hook appends a line to the reporters'
  output. \<open>modernReporter\<close> has both file-result methods and both file-start methods:
  its preferred file-result method fills \<open>coverage\<close> and its legacy methods reject.
  \<open>legacyReporter\<close> has the legacy methods only, \<open>silentReporter\<close> has no method at all,
  and the preferred methods of \<open>failingReporter\<close> reject without touching anything.
\<close>

definition modernReporter :: "(string, test_result, nat, string list) reporter" where
  "modernReporter =
     \<lparr>onTestFileResult_hook =
        Some (\<lambda>test testResult results. (testResult\<lparr>coverage := Some test\<rparr>, None)),
      onTestResult_hook = Some (\<lambda>test testResult results. (testResult, Some (Rejected ''legacy''))),
      onTestFileStart_hook = Some (\<lambda>test out. (out @ [''modern: '' @ test], None)),
      onTestStart_hook = Some (\<lambda>test out. (out, Some (Rejected ''legacy'')))\<rparr>"

definition legacyReporter :: "(string, test_result, nat, string list) reporter" where
  "legacyReporter =
     \<lparr>onTestFileResult_hook = None,
      onTestResult_hook =
        Some (\<lambda>test testResult results. (testResult\<lparr>console := Some [test]\<rparr>, None)),
      onTestFileStart_hook = None,
      onTestStart_hook = Some (\<lambda>test out. (out @ [''legacy: '' @ test], None))\<rparr>"

definition silentReporter :: "(string, test_result, nat, string list) reporter" where
  "silentReporter =
     \<lparr>onTestFileResult_hook = None, onTestResult_hook = None,
      onTestFileStart_hook = None, onTestStart_hook = None\<rparr>"

definition failingReporter :: "(string, test_result, nat, string list) reporter" where
  "failingReporter =
     \<lparr>onTestFileResult_hook = Some (\<lambda>test testResult results. (testResult, Some (Rejected ''boom''))),
      onTestResult_hook = None,
      onTestFileStart_hook = Some (\<lambda>test out. (out, Some (Rejected ''boom''))),
      onTestStart_hook = None\<rparr>"

definition sampleDispatcher :: "(string, test_result, nat, string list) dispatcher" where
  "sampleDispatcher =
     register legacyReporter (register silentReporter (register modernReporter
       ReporterDispatcher_new))"

text \<open>A failing reporter registered before a reporter that has every method.\<close>

definition failingFirstDispatcher :: "(string, test_result, nat, string list) dispatcher" where
  "failingFirstDispatcher =
     register modernReporter (register failingReporter ReporterDispatcher_new)"

text \<open>A failing reporter as the only reporter.\<close>

definition failingOnlyDispatcher :: "(string, test_result, nat, string list) dispatcher" where
  "failingOnlyDispatcher = register failingReporter ReporterDispatcher_new"

definition sampleResult :: test_result where
  "sampleResult =
     \<lparr>testFilePath = ''sum.test.js'', testResults = [\<lparr>title = ''adds numbers''\<rparr>],
      sourceMaps = Some [(''sum.js'', ''sum.js.map'')], coverage = None,
      console = Some [''log'']\<rparr>"

section \<open>The watch controller (watch.js)\<close>

subsection \<open>Terminal output\<close>

text \<open>
  What is written to \<open>pipe\<close> is kept as a list of writes. A string built with \<open>chalk\<close>
  is a list of styled pieces, \<open>+\<close> being append; the constants of \<open>ansi-escapes\<close> and
  \<open>CLEAR\<close> are symbols; \<open>preRunMessage.print\<close> and \<open>printTypeahead\<close> are external
  printers, recorded with their arguments.
\<close>

datatype styled = Plain string | Bold string | Dim string | Red string

datatype ansiEscapes = cursorHide | clearScreen | cursorShow | eraseScreen

datatype written =
    Escape ansiEscapes
  | CLEAR
  | Text "styled list"
  | PreRunMessage
  | PrintTypeahead "string option" "string list"

definition rsaquo :: string where
  "rsaquo = [CHR 0xE2, CHR 0x80, CHR 0xBA]"

definition nl :: string where
  "nl = [CHR 0x0A]"

subsection \<open>Arguments, keys and the environment\<close>

text \<open>
  The fields of \<open>argv\<close> the controller reads. \<open>argv._\<close> is the array of positional
  arguments; an element may be \<open>undefined\<close> because \<open>[currentPattern]\<close> is stored there.
\<close>

record argv =
  argv_watch :: bool
  argv_watchAll :: bool
  argv_noSCM :: bool
  argv_underscore :: "string option list"

datatype watchMode = Watch | WatchAll

text \<open>
  Modelled from the spec: \<open>setWatchMode\<close> (\<open>./lib/setWatchMode\<close> is not among the
  sources). The specification's watch state has a mode, \<open>watch\<close> or \<open>watchAll\<close>, and an
  optional pattern; setting the mode makes one flag true and the other false, and a
  given \<open>pattern\<close> option becomes the committed pattern \<open>argv._\<close>.
\<close>

definition setWatchMode :: "argv \<Rightarrow> watchMode \<Rightarrow> string option list option \<Rightarrow> argv" where
  "setWatchMode a m pattern =
     (let a' = (case m of
                  Watch \<Rightarrow> a\<lparr>argv_watch := True, argv_watchAll := False\<rparr>
                | WatchAll \<Rightarrow> a\<lparr>argv_watch := False, argv_watchAll := True\<rparr>)
      in case pattern of None \<Rightarrow> a' | Some p \<Rightarrow> a'\<lparr>argv_underscore := p\<rparr>)"

text \<open>
  The table \<open>KEYS\<close> of \<open>./constants\<close> is not among the sources; it is a parameter. A key
  arrives as the hex encoding of the bytes read from the terminal.
\<close>

record keys =
  KEY_A :: string
  KEY_ARROW_DOWN :: string
  KEY_ARROW_LEFT :: string
  KEY_ARROW_RIGHT :: string
  KEY_ARROW_UP :: string
  KEY_BACKSPACE :: string
  KEY_CONTROL_C :: string
  KEY_CONTROL_D :: string
  KEY_ENTER :: string
  KEY_ESCAPE :: string
  KEY_O :: string
  KEY_P :: string
  KEY_Q :: string
  KEY_QUESTION_MARK :: string
  KEY_U :: string

definition distinctKeys :: "keys \<Rightarrow> bool" where
  "distinctKeys K =
     distinct [KEY_A K, KEY_ARROW_DOWN K, KEY_ARROW_LEFT K, KEY_ARROW_RIGHT K, KEY_ARROW_UP K,
       KEY_BACKSPACE K, KEY_CONTROL_C K, KEY_CONTROL_D K, KEY_ENTER K, KEY_ESCAPE K, KEY_O K,
       KEY_P K, KEY_Q K, KEY_QUESTION_MARK K, KEY_U K]"

text \<open>
  What the controller takes from outside: the key table, whether
  \<open>process.env.JEST_HIDE_USAGE\<close> is truthy, \<open>new Buffer(key, 'hex').toString()\<close>, the
  regular-expression engine, and \<open>searchSource.findMatchingTests(pattern).paths\<close> for the
  search source built from a given haste context.
\<close>

record 'rx env =
  KEYS :: keys
  JEST_HIDE_USAGE :: bool
  Buffer_hex_toString :: "string \<Rightarrow> string"
  regexp :: "'rx regexp_engine"
  findMatchingTests :: "nat \<Rightarrow> string option \<Rightarrow> string list"

subsection \<open>State\<close>

text \<open>
  \<open>overrideConfig\<close> is an object literal: \<open>{}\<close> is \<open>[]\<close> and \<open>{updateSnapshot: true}\<close> is
  \<open>[(''updateSnapshot'', True)]\<close>. The configuration itself never changes, so a call of
  \<open>runJest\<close> is recorded with the override merged over it, the haste context and the
  \<open>TestWatcher\<close> it was given.
\<close>

type_synonym overrideConfig = "(string \<times> bool) list"

record run_call =
  run_hasteContext :: nat
  run_overrideConfig :: overrideConfig
  run_testWatcher :: nat

text \<open>The part of the aggregated results the callback reads: \<open>!!results.snapshot.failure\<close>.\<close>

record aggregated =
  snapshot_failure :: bool

text \<open>
  Modelled from the spec: \<open>TestWatcher\<close> (\<open>./TestWatcher\<close> is not among the sources). The
  specification's cancellation token is a mutable flag \<open>{interrupted: bool}\<close>, false when
  the token is created. The token objects live in a heap, the list of their flags; a
  reference is a position in it. \<open>new TestWatcher({isWatchMode: true})\<close> returns a
  fresh reference and the heap with the new flag, and
  \<open>setState({interrupted: true})\<close> sets the flag a reference points to.
\<close>

definition TestWatcher_new :: "bool list \<Rightarrow> nat \<times> bool list" where
  "TestWatcher_new heap = (length heap, heap @ [False])"

definition setState_interrupted :: "nat \<Rightarrow> bool list \<Rightarrow> bool list" where
  "setState_interrupted t heap = heap[t := True]"

text \<open>
  The variables of the closure \<open>watch\<close>, and the world around them. A haste context is
  an opaque handle (a number); \<open>searchSource\<close> is the handle it was built from.
  \<open>tokens\<close> is the heap of \<open>TestWatcher\<close> objects, \<open>pipe\<close> what has been written to the
  output, \<open>stderr\<close> what \<open>console.error\<close> has printed. \<open>runs\<close> lists the calls of
  \<open>runJest\<close>; \<open>pending\<close> holds the tokens of the calls whose promise has not settled
  yet, the runs that are active.
\<close>

record watch_state =
  argv :: argv
  hasteContext :: nat
  currentPattern :: "string option"
  hasSnapshotFailure :: bool
  isEnteringPattern :: bool
  isRunning :: bool
  testWatcher :: "nat option"
  displayHelp :: bool
  searchSource :: nat
  tokens :: "bool list"
  pipe :: "written list"
  stderr :: "styled list"
  runs :: "run_call list"
  pending :: "nat list"

subsection \<open>usage\<close>

fun join :: "'a list \<Rightarrow> 'a list list \<Rightarrow> 'a list" where
  "join delimiter [] = []"
| "join delimiter [x] = x"
| "join delimiter (x # y # ys) = x @ delimiter @ join delimiter (y # ys)"

text \<open>
  \<open>chalk.dim(' \<dots> Press ') + key + chalk.dim(what)\<close>, the shape of every line but the
  first.
\<close>

definition press :: "string \<Rightarrow> string \<Rightarrow> styled list" where
  "press key what = [Dim ('' '' @ rsaquo @ '' Press ''), Plain key, Dim what]"

text \<open>
  \<open>usage(argv, snapshotFailure, delimiter)\<close>. A \<open>null\<close> message is \<open>None\<close> and is
  filtered out. \<open>argv._\<close> is an array and so truthy, which is the \<open>True\<close> below.
\<close>

definition usage :: "argv \<Rightarrow> bool \<Rightarrow> styled list \<Rightarrow> styled list" where
  "usage a snapshotFailure delimiter =
     (let messages =
        [Some [Plain nl, Bold ''Watch Usage''],
         if argv_watch a then Some (press ''a'' '' to run all tests.'') else None,
         if (argv_watchAll a \<or> True) \<and> \<not> argv_noSCM a
         then Some (press ''o'' '' to only run tests related to changed files.'') else None,
         if snapshotFailure then Some (press ''u'' '' to update failing snapshots.'') else None,
         Some (press ''p'' '' to filter by a filename regex pattern.''),
         Some (press ''q'' '' to quit watch mode.''),
         Some (press ''Enter'' '' to trigger a test run.'')]
      in join delimiter (List.map_filter id messages) @ [Plain nl])"

subsection \<open>Operations of the controller\<close>

text \<open>
  \<open>writeCurrentPattern\<close>. \<open>new RegExp(undefined, 'i')\<close> compiles the empty pattern; when the
  constructor throws, the \<open>catch\<close> leaves \<open>regex\<close> undefined and no path is searched.
\<close>

definition writeCurrentPattern :: "'rx env \<Rightarrow> watch_state \<Rightarrow> watch_state" where
  "writeCurrentPattern E s =
     (let regex = RegExp_new (regexp E) (case currentPattern s of None \<Rightarrow> [] | Some p \<Rightarrow> p) ''i'';
          paths = (if regex \<noteq> None
                   then findMatchingTests E (searchSource s) (currentPattern s) else [])
      in s\<lparr>pipe := pipe s @
           [Escape cursorHide,
            Escape clearScreen,
            Text [Plain nl, Bold ''Pattern Mode Usage'', Plain nl],
            Text [Dim ('' '' @ rsaquo @ '' Press ''), Plain ''ESC'', Dim '' exit pattern mode.'',
                  Plain (nl @ nl)],
            PrintTypeahead (currentPattern s) paths,
            Escape cursorShow]\<rparr>)"

text \<open>
  \<open>startRun(overrideConfig)\<close>, up to the call of \<open>runJest\<close>; what the promise and the
  callback do later are the two functions after it.
\<close>

definition startRun :: "overrideConfig \<Rightarrow> watch_state \<Rightarrow> watch_state" where
  "startRun overrideConfig s =
     (if isRunning s then s
      else
        (case TestWatcher_new (tokens s) of (t, heap) \<Rightarrow>
         s\<lparr>tokens := heap,
           testWatcher := Some t,
           pipe := pipe s @ [CLEAR, PreRunMessage],
           isRunning := True,
           runs := runs s @
             [\<lparr>run_hasteContext = hasteContext s, run_overrideConfig = overrideConfig,
               run_testWatcher = t\<rparr>],
           pending := pending s @ [t]\<rparr>))"

text \<open>The callback handed to \<open>runJest\<close> as its last argument, \<open>results => {...}\<close>.\<close>

definition onComplete :: "'rx env \<Rightarrow> aggregated \<Rightarrow> watch_state \<Rightarrow> watch_state" where
  "onComplete E results s =
     (let s1 = (case TestWatcher_new (tokens s) of (t, heap) \<Rightarrow>
                  s\<lparr>isRunning := False,
                    hasSnapshotFailure := snapshot_failure results,
                    tokens := heap,
                    testWatcher := Some t\<rparr>)
      in if displayHelp s1
         then s1\<lparr>pipe := pipe s1 @ [Text (usage (argv s1) (hasSnapshotFailure s1) [Plain nl])],
                displayHelp := \<not> JEST_HIDE_USAGE E\<rparr>
         else s1)"

text \<open>
  The two handlers of \<open>.then(() => {}, error => console.error(chalk.red(error.stack)))\<close>.
\<close>

definition onFulfilled :: "watch_state \<Rightarrow> watch_state" where
  "onFulfilled s = s"

definition onRejected :: "string \<Rightarrow> watch_state \<Rightarrow> watch_state" where
  "onRejected stack s = s\<lparr>stderr := stderr s @ [Red stack]\<rparr>"

text \<open>
  \<open>runJest\<close> is not among the sources. Its promise settles in one of two ways. A run
  that completes calls the callback with the aggregated results and its promise is
  fulfilled; a run that fails rejects its promise, and nothing of \<open>watch.js\<close> but the
  rejection handler runs. Either way the run with token \<open>t\<close> is no longer pending.
\<close>

definition runFulfilled :: "'rx env \<Rightarrow> nat \<Rightarrow> aggregated \<Rightarrow> watch_state \<Rightarrow> watch_state" where
  "runFulfilled E t results s =
     onFulfilled (onComplete E results (s\<lparr>pending := remove1 t (pending s)\<rparr>))"

definition runRejected :: "nat \<Rightarrow> string \<Rightarrow> watch_state \<Rightarrow> watch_state" where
  "runRejected t stack s = onRejected stack (s\<lparr>pending := remove1 t (pending s)\<rparr>)"

text \<open>The listener of \<open>hasteMap.on('change', ...)\<close>; \<open>h\<close> is the context created.\<close>

definition onChange :: "nat \<Rightarrow> watch_state \<Rightarrow> watch_state" where
  "onChange h s =
     startRun []
       (s\<lparr>hasteContext := h, currentPattern := Some [], isEnteringPattern := False,
          searchSource := h\<rparr>)"

text \<open>
  \<open>onKeypress(key)\<close>. \<open>process.exit(0)\<close> ends the process: \<open>Inl (ProcessExit 0)\<close>. The
  \<open>switch\<close> statements take the first case that equals the key. In the \<open>default\<close> case of
  pattern entry \<open>undefined.slice\<close> is a \<open>TypeError\<close> and \<open>undefined + char\<close> is the text
  \<open>undefined\<close> followed by the character; \<open>slice(0, -1)\<close> drops the last unit of the
  string.
\<close>

definition onKeypress :: "'rx env \<Rightarrow> string \<Rightarrow> watch_state \<Rightarrow> error + watch_state" where
  "onKeypress E key s =
     (let K = KEYS E in
      if key = KEY_CONTROL_C K \<or> key = KEY_CONTROL_D K then Inl (ProcessExit 0)
      else if isEnteringPattern s then
        (if key = KEY_ENTER K then
           Inr (startRun []
             (s\<lparr>isEnteringPattern := False,
                argv := setWatchMode (argv s) Watch (Some [currentPattern s])\<rparr>))
         else if key = KEY_ESCAPE K then
           Inr (s\<lparr>isEnteringPattern := False,
                  pipe := pipe s @
                    [Escape cursorHide,
                     Escape clearScreen,
                     Text (usage (argv s) (hasSnapshotFailure s) [Plain nl]),
                     Escape cursorShow],
                  currentPattern := (case argv_underscore (argv s) of [] \<Rightarrow> None | p # _ \<Rightarrow> p)\<rparr>)
         else if key = KEY_ARROW_DOWN K \<or> key = KEY_ARROW_LEFT K \<or> key = KEY_ARROW_RIGHT K \<or>
                 key = KEY_ARROW_UP K then
           Inr s
         else
           (let char = Buffer_hex_toString E key in
            if key = KEY_BACKSPACE K then
              (case currentPattern s of
                 None \<Rightarrow> Inl TypeError
               | Some p \<Rightarrow> Inr (writeCurrentPattern E (s\<lparr>currentPattern := Some (butlast p)\<rparr>)))
            else
              Inr (writeCurrentPattern E
                (s\<lparr>currentPattern :=
                     Some ((case currentPattern s of None \<Rightarrow> ''undefined'' | Some p \<Rightarrow> p) @ char)\<rparr>))))
      else if isRunning s \<and> testWatcher s \<noteq> None \<and>
              key \<in> set [KEY_Q K, KEY_ENTER K, KEY_A K, KEY_O K, KEY_P K] then
        (case testWatcher s of
           None \<Rightarrow> Inr s
         | Some t \<Rightarrow> Inr (s\<lparr>tokens := setState_interrupted t (tokens s)\<rparr>))
      else if key = KEY_Q K then Inl (ProcessExit 0)
      else if key = KEY_ENTER K then Inr (startRun [] s)
      else if key = KEY_U K then Inr (startRun [(''updateSnapshot'', True)] s)
      else if key = KEY_A K then
        Inr (startRun [] (s\<lparr>argv := setWatchMode (argv s) WatchAll None\<rparr>))
      else if key = KEY_O K then
        Inr (startRun [] (s\<lparr>argv := setWatchMode (argv s) Watch None\<rparr>))
      else if key = KEY_P K then
        Inr (writeCurrentPattern E
          (s\<lparr>isEnteringPattern := True,
             currentPattern := Some [],
             pipe := pipe s @ [Escape eraseScreen]\<rparr>))
      else if key = KEY_QUESTION_MARK K then
        (if JEST_HIDE_USAGE E
         then Inr (s\<lparr>pipe := pipe s @ [Text (usage (argv s) (hasSnapshotFailure s) [Plain nl])]\<rparr>)
         else Inr s)
      else Inr s)"

text \<open>
  \<open>watch(config, pipe, argv, hasteMap, hasteContext, stdin)\<close>: the mode is set from the
  arguments, the variables get their initial values and the first run is started.
\<close>

definition watch :: "argv \<Rightarrow> nat \<Rightarrow> watch_state" where
  "watch a h =
     startRun []
       \<lparr>argv = setWatchMode a (if argv_watch a then Watch else WatchAll) (Some (argv_underscore a)),
        hasteContext = h,
        currentPattern = Some [],
        hasSnapshotFailure = False,
        isEnteringPattern = False,
        isRunning = False,
        testWatcher = None,
        displayHelp = True,
        searchSource = h,
        tokens = [],
        pipe = [],
        stderr = [],
        runs = [],
        pending = []\<rparr>"

text \<open>
  The states the controller can be in: after \<open>watch\<close>, every keypress that does not end
  the process, every file change, and every settlement of a pending run leads to
  another one. (Keys arrive only when \<open>stdin\<close> is a terminal; a session without
  keypresses is among the sessions described.)
\<close>

inductive reachable :: "'rx env \<Rightarrow> argv \<Rightarrow> nat \<Rightarrow> watch_state \<Rightarrow> bool" for E :: "'rx env" and a :: argv and h :: nat where
  started: "reachable E a h (watch a h)"
| keypress: "reachable E a h s \<Longrightarrow> onKeypress E key s = Inr s' \<Longrightarrow> reachable E a h s'"
| changed: "reachable E a h s \<Longrightarrow> reachable E a h (onChange h' s)"
| fulfilled: "reachable E a h s \<Longrightarrow> t \<in> set (pending s) \<Longrightarrow> reachable E a h (runFulfilled E t results s)"
| rejected: "reachable E a h s \<Longrightarrow> t \<in> set (pending s) \<Longrightarrow> reachable E a h (runRejected t stack s)"

subsection \<open>A concrete terminal\<close>

text \<open>
  A key table with the usual encodings of the keys, a decoder of hex digit pairs for
  \<open>new Buffer(key, 'hex').toString()\<close>, and an environment built from them.
\<close>

definition terminalKeys :: keys where
  "terminalKeys =
     \<lparr>KEY_A = ''61'', KEY_ARROW_DOWN = ''1b5b42'', KEY_ARROW_LEFT = ''1b5b44'',
      KEY_ARROW_RIGHT = ''1b5b43'', KEY_ARROW_UP = ''1b5b41'', KEY_BACKSPACE = ''7f'',
      KEY_CONTROL_C = ''03'', KEY_CONTROL_D = ''04'', KEY_ENTER = ''0d'', KEY_ESCAPE = ''1b'',
      KEY_O = ''6f'', KEY_P = ''70'', KEY_Q = ''71'', KEY_QUESTION_MARK = ''3f'', KEY_U = ''75''\<rparr>"

definition hexDigit :: "char \<Rightarrow> nat" where
  "hexDigit c =
     (let n = (of_char c :: nat) in
      if 48 \<le> n \<and> n \<le> 57 then n - 48 else if 97 \<le> n \<and> n \<le> 102 then n - 87 else 0)"

fun hexToString :: "string \<Rightarrow> string" where
  "hexToString (hi # lo # rest) = char_of (16 * hexDigit hi + hexDigit lo) # hexToString rest"
| "hexToString _ = []"

definition terminalEnv :: "(string \<times> bool) env" where
  "terminalEnv =
     \<lparr>KEYS = terminalKeys, JEST_HIDE_USAGE = False, Buffer_hex_toString = hexToString,
      regexp = literal_engine,
      findMatchingTests = (\<lambda>h pattern. [''sum.test.js''])\<rparr>"

definition watchArgv :: argv where
  "watchArgv = \<lparr>argv_watch = True, argv_watchAll = False, argv_noSCM = False, argv_underscore = []\<rparr>"

subsection \<open>Sessions\<close>

text \<open>Keys pressed one after another; the first that ends the process ends the session.\<close>

fun pressKeys :: "'rx env \<Rightarrow> string list \<Rightarrow> watch_state \<Rightarrow> error + watch_state" where
  "pressKeys E [] s = Inr s"
| "pressKeys E (key # rest) s =
     (case onKeypress E key s of Inl e \<Rightarrow> Inl e | Inr s' \<Rightarrow> pressKeys E rest s')"

text \<open>
  Three concrete sessions on the concrete terminal. In \<open>firstRunDone\<close> the first run has
  completed. In \<open>editingSession\<close> the user then enters pattern mode (\<open>p\<close>), types \<open>foo\<close>
  and commits it with enter; that run completes; the user enters pattern mode again and
  types \<open>b\<close>. In \<open>rejectedFirstRun\<close> the promise of the first run is rejected instead.
\<close>

definition firstRunDone :: watch_state where
  "firstRunDone = runFulfilled terminalEnv 0 \<lparr>snapshot_failure = False\<rparr> (watch watchArgv 0)"

definition editingSession :: "error + watch_state" where
  "editingSession =
     (case pressKeys terminalEnv [''70'', ''66'', ''6f'', ''6f'', ''0d''] firstRunDone of
        Inl e \<Rightarrow> Inl e
      | Inr s \<Rightarrow>
          pressKeys terminalEnv [''70'', ''62'']
            (runFulfilled terminalEnv 2 \<lparr>snapshot_failure = False\<rparr> s))"

definition rejectedFirstRun :: watch_state where
  "rejectedFirstRun = runRejected 0 ''Error: boom'' (watch watchArgv 0)"

subsection \<open>The single-run invariant\<close>

text \<open>
  At most one run is pending, and while one is, the controller is marked running and
  \<open>testWatcher\<close> refers to the token that run was given, an allocated token recorded
  among the calls of \<open>runJest\<close>.
\<close>

definition singleRun :: "watch_state \<Rightarrow> bool" where
  "singleRun s =
     (length (pending s) \<le> 1 \<and>
      list_all (\<lambda>t. isRunning s \<and> testWatcher s = Some t \<and> t < length (tokens s) \<and>
                   list_ex (\<lambda>r. run_testWatcher r = t) (runs s)) (pending s))"

section \<open>Properties of the pattern prompt\<close>

lemma matchTitles_filter:
  "matchTitles E regex as acc = acc @ filter (RegExp_test E regex) (map title as)"
  by (induction as arbitrary: acc) simp_all

lemma matchRecords_concat:
  "matchRecords E regex rs acc =
     acc @ concat (map (\<lambda>r. filter (RegExp_test E regex) (map title (testResults r))) rs)"
  by (induction rs arbitrary: acc) (simp_all add: matchTitles_filter)

text \<open>
  C6. A pattern that does not compile as a regular expression yields the empty list of
  matched titles as a normal return value: no error leaves \<open>_getMatchedTests\<close>, whatever
  the state of the cache.
\<close>

theorem getMatchedTests_compile_failure:
  "RegExp_new E pattern ''i'' = None \<Longrightarrow> getMatchedTests E this pattern = Inr []"
  by (simp add: getMatchedTests_def)

theorem getMatchedTests_compile_failure_witness:
  "RegExp_new literal_engine ''(add'' ''i'' = None \<and>
   getMatchedTests literal_engine sumPrompt ''(add'' = Inr []"
proof -
  have h: "RegExp_new literal_engine ''(add'' ''i'' = None"
    by (simp add: literal_engine_def syntaxCharacters_def)
  from getMatchedTests_compile_failure [OF h] h show ?thesis by simp
qed

text \<open>
  C7. For a pattern that compiles and any cached record sequence, the result is the
  titles of the records in stored order, each record's titles in stored order, keeping
  exactly the titles the case-insensitive expression matches: a filter of the
  concatenated titles, so nothing is deduplicated or re-sorted.
\<close>

theorem getMatchedTests_scan_order:
  "RegExp_new E pattern ''i'' = Some regex \<Longrightarrow> cachedTestResults this = Some cached \<Longrightarrow>
   getMatchedTests E this pattern =
     Inr (filter (RegExp_test E regex) (concat (map (\<lambda>r. map title (testResults r)) cached)))"
  by (simp add: getMatchedTests_def matchRecords_concat filter_concat comp_def)

theorem getMatchedTests_scan_order_witness:
  "RegExp_new literal_engine ''add'' ''i'' = Some (''add'', True) \<and>
   RegExp_new literal_engine ''numbers'' ''i'' = Some (''numbers'', True) \<and>
   cachedTestResults sumPrompt =
     Some [cachedTitles [''adds numbers'', ''subtracts numbers'']] \<and>
   getMatchedTests literal_engine sumPrompt ''add'' = Inr [''adds numbers''] \<and>
   getMatchedTests literal_engine sumPrompt ''numbers'' =
     Inr [''adds numbers'', ''subtracts numbers'']"
proof -
  have c1: "RegExp_new literal_engine ''add'' ''i'' = Some (''add'', True)"
    by (simp add: literal_engine_def syntaxCharacters_def)
  have c2: "RegExp_new literal_engine ''numbers'' ''i'' = Some (''numbers'', True)"
    by (simp add: literal_engine_def syntaxCharacters_def)
  have k: "cachedTestResults sumPrompt =
      Some [cachedTitles [''adds numbers'', ''subtracts numbers'']]"
    by (simp add: sumPrompt_def)
  have t1: "filter (RegExp_test literal_engine (''add'', True))
      (concat (map (\<lambda>r. map title (testResults r))
         [cachedTitles [''adds numbers'', ''subtracts numbers'']])) = [''adds numbers'']"
    by code_simp
  have t2: "filter (RegExp_test literal_engine (''numbers'', True))
      (concat (map (\<lambda>r. map title (testResults r))
         [cachedTitles [''adds numbers'', ''subtracts numbers'']])) =
      [''adds numbers'', ''subtracts numbers'']"
    by code_simp
  show ?thesis
    using getMatchedTests_scan_order [OF c1 k] getMatchedTests_scan_order [OF c2 k] c1 c2 k t1 t2
    by simp
qed

text \<open>
  C10. \<open>updateCachedTestResults\<close> called with \<open>null\<close> or \<open>undefined\<close> stores the empty
  sequence, and every matching query after it returns zero matches as a normal value,
  for every pattern, whether it compiles or not.
\<close>

theorem updateCachedTestResults_null:
  "cachedTestResults (updateCachedTestResults None this) = Some [] \<and>
   getMatchedTests E (updateCachedTestResults None this) pattern = Inr []"
  by (simp add: updateCachedTestResults_def getMatchedTests_def split: option.split)

section \<open>Properties of the reporter dispatcher\<close>

lemma chosen_spec_Nil: "chosen_spec pick i [] = []"
  by (simp add: chosen_spec_def)

lemma chosen_spec_Cons:
  "chosen_spec pick i (r # rs) =
     (case pick r of None \<Rightarrow> [] | Some (name, hook) \<Rightarrow> [(i, name, hook)]) @
     chosen_spec pick (Suc i) rs"
  by (simp add: chosen_spec_def)

lemma fileResultLoop_invokeAll:
  "fileResultLoop i rs test testResult results =
     invokeAll (\<lambda>hook r. hook test r results) (chosen_spec fileResultChoice i rs) testResult"
proof (induction rs arbitrary: i testResult)
  case Nil
  show ?case by (simp add: chosen_spec_Nil)
next
  case (Cons r rs)
  show ?case
    by (simp add: chosen_spec_Cons fileResultChoice_def preferred_def Cons.IH
        split: option.split prod.split)
qed

lemma fileStartLoop_invokeAll:
  "fileStartLoop i rs test world =
     invokeAll (\<lambda>hook. hook test) (chosen_spec fileStartChoice i rs) world"
proof (induction rs arbitrary: i world)
  case Nil
  show ?case by (simp add: chosen_spec_Nil)
next
  case (Cons r rs)
  show ?case
    by (simp add: chosen_spec_Cons fileStartChoice_def preferred_def Cons.IH
        split: option.split prod.split)
qed

lemma chosen_spec_lower: "c \<in> set (chosen_spec pick i rs) \<Longrightarrow> i \<le> fst c"
proof (induction rs arbitrary: i)
  case Nil
  then show ?case by (simp add: chosen_spec_Nil)
next
  case (Cons r rs)
  from Cons.prems have "fst c = i \<or> c \<in> set (chosen_spec pick (Suc i) rs)"
    by (auto simp: chosen_spec_Cons split: option.splits)
  with Cons.IH [of "Suc i"] show ?case by auto
qed

lemma chosen_spec_sorted: "sorted_wrt (<) (map fst (callsOf (chosen_spec pick i rs)))"
proof (induction rs arbitrary: i)
  case Nil
  show ?case by (simp add: chosen_spec_Nil callsOf_def)
next
  case (Cons r rs)
  have "\<forall>c \<in> set (chosen_spec pick (Suc i) rs). i < fst c"
    using chosen_spec_lower [of _ pick "Suc i" rs] by fastforce
  with Cons [of "Suc i"] show ?case
    by (cases "pick r") (auto simp: chosen_spec_Cons callsOf_def)
qed

lemma invokeAll_calls:
  "prefix (fst (invokeAll invoke chosen state)) (callsOf chosen) \<and>
   (snd (snd (invokeAll invoke chosen state)) = None \<longrightarrow>
      fst (invokeAll invoke chosen state) = callsOf chosen)"
proof (induction chosen arbitrary: state)
  case Nil
  show ?case by (simp add: callsOf_def)
next
  case (Cons c chosen)
  obtain k name hook where c: "c = (k, name, hook)"
    by (cases c)
  show ?case
  proof (cases "invoke hook state")
    case (Pair state' rejection)
    show ?thesis
    proof (cases rejection)
      case None
      obtain calls out where r: "invokeAll invoke chosen state' = (calls, out)"
        by (cases "invokeAll invoke chosen state'")
      from Cons.IH [of state'] r c Pair None show ?thesis
        by (simp add: callsOf_def)
    next
      case (Some e)
      with c Pair show ?thesis by (simp add: callsOf_def)
    qed
  qed
qed

lemma onTestFileResult_loop:
  "fst (onTestFileResult this test testResult results) =
     fst (fileResultLoop 0 (reporters this) test testResult results) \<and>
   snd (snd (onTestFileResult this test testResult results)) =
     snd (snd (fileResultLoop 0 (reporters this) test testResult results)) \<and>
   (fst (snd (onTestFileResult this test testResult results)))
       \<lparr>sourceMaps := None, coverage := None, console := None\<rparr> =
     (fst (snd (fileResultLoop 0 (reporters this) test testResult results)))
       \<lparr>sourceMaps := None, coverage := None, console := None\<rparr>"
  by (simp add: onTestFileResult_def split: prod.split option.split)

lemma register_all: "reporters (fold register rs ReporterDispatcher_new) = rs"
proof -
  have "reporters (fold register rs d) = reporters d @ rs" for d :: "('a, 'b, 'c, 'd) dispatcher"
    by (induction rs arbitrary: d) (simp_all add: register_def)
  then show ?thesis by (simp add: ReporterDispatcher_new_def)
qed

lemma sampleDispatcher_reporters:
  "reporters sampleDispatcher = [modernReporter, silentReporter, legacyReporter]"
  by (simp add: sampleDispatcher_def register_def ReporterDispatcher_new_def)

lemma sample_fileResult_spec:
  "fileResult_spec [modernReporter, silentReporter, legacyReporter] ''sum.test.js'' sampleResult 0 =
     ([(0, OnTestFileResult), (2, OnTestResult)],
      sampleResult\<lparr>coverage := Some ''sum.test.js'', console := Some [''sum.test.js'']\<rparr>, None)"
  by (simp add: fileResult_spec_def chosen_spec_def fileResultChoice_def preferred_def
      modernReporter_def silentReporter_def legacyReporter_def)

text \<open>
  C4, as amended. \<open>onTestFileResult\<close> and \<open>onTestFileStart\<close> do what the specification's
  rule says, hook for hook: they walk the reporters in registration order and call on
  each its preferred method if present, else its legacy alias if present (never both,
  and nothing on a reporter with neither), each call on the state the call before left,
  and they stop at the first call that rejects, with its rejection. So the calls, the
  rejection and the state are those of the chosen hooks (for \<open>onTestFileResult\<close> the
  object is the one the chosen hooks leave, up to the three fields the method clears);
  the positions of the chosen hooks increase strictly; the calls made are an initial
  part of the chosen ones, and all of them when no call rejects.
\<close>

theorem dispatch_preferred_else_legacy:
  "onTestFileStart this test world = fileStart_spec (reporters this) test world \<and>
   fileResultLoop 0 (reporters this) test testResult results =
     fileResult_spec (reporters this) test testResult results \<and>
   fst (onTestFileResult this test testResult results) =
     fst (fileResult_spec (reporters this) test testResult results) \<and>
   snd (snd (onTestFileResult this test testResult results)) =
     snd (snd (fileResult_spec (reporters this) test testResult results)) \<and>
   (fst (snd (onTestFileResult this test testResult results)))
       \<lparr>sourceMaps := None, coverage := None, console := None\<rparr> =
     (fst (snd (fileResult_spec (reporters this) test testResult results)))
       \<lparr>sourceMaps := None, coverage := None, console := None\<rparr> \<and>
   sorted_wrt (<) (map fst (callsOf (chosen_spec fileResultChoice 0 (reporters this)))) \<and>
   sorted_wrt (<) (map fst (callsOf (chosen_spec fileStartChoice 0 (reporters this)))) \<and>
   prefix (fst (onTestFileResult this test testResult results))
     (callsOf (chosen_spec fileResultChoice 0 (reporters this))) \<and>
   (snd (snd (onTestFileResult this test testResult results)) = None \<longrightarrow>
      fst (onTestFileResult this test testResult results) =
        callsOf (chosen_spec fileResultChoice 0 (reporters this))) \<and>
   prefix (fst (onTestFileStart this test world))
     (callsOf (chosen_spec fileStartChoice 0 (reporters this))) \<and>
   (snd (snd (onTestFileStart this test world)) = None \<longrightarrow>
      fst (onTestFileStart this test world) =
        callsOf (chosen_spec fileStartChoice 0 (reporters this)))"
proof -
  have start: "onTestFileStart this test world = fileStart_spec (reporters this) test world"
    by (simp add: onTestFileStart_def fileStart_spec_def fileStartLoop_invokeAll)
  have loop: "fileResultLoop 0 (reporters this) test testResult results =
      fileResult_spec (reporters this) test testResult results"
    by (simp add: fileResult_spec_def fileResultLoop_invokeAll)
  note viaLoop = onTestFileResult_loop [of this test testResult results, unfolded loop]
  have callsR: "prefix (fst (fileResult_spec (reporters this) test testResult results))
      (callsOf (chosen_spec fileResultChoice 0 (reporters this))) \<and>
    (snd (snd (fileResult_spec (reporters this) test testResult results)) = None \<longrightarrow>
      fst (fileResult_spec (reporters this) test testResult results) =
        callsOf (chosen_spec fileResultChoice 0 (reporters this)))"
    unfolding fileResult_spec_def by (rule invokeAll_calls)
  have callsS: "prefix (fst (fileStart_spec (reporters this) test world))
      (callsOf (chosen_spec fileStartChoice 0 (reporters this))) \<and>
    (snd (snd (fileStart_spec (reporters this) test world)) = None \<longrightarrow>
      fst (fileStart_spec (reporters this) test world) =
        callsOf (chosen_spec fileStartChoice 0 (reporters this)))"
    unfolding fileStart_spec_def by (rule invokeAll_calls)
  from start loop viaLoop callsR callsS chosen_spec_sorted [of fileResultChoice 0 "reporters this"]
    chosen_spec_sorted [of fileStartChoice 0 "reporters this"]
  show ?thesis by simp
qed

theorem dispatch_preferred_else_legacy_witness:
  "snd (snd (onTestFileResult sampleDispatcher ''sum.test.js'' sampleResult 0)) = None \<and>
   fst (onTestFileResult sampleDispatcher ''sum.test.js'' sampleResult 0) =
     [(0, OnTestFileResult), (2, OnTestResult)] \<and>
   snd (snd (onTestFileStart sampleDispatcher ''sum.test.js'' [])) = None \<and>
   onTestFileStart sampleDispatcher ''sum.test.js'' [] =
     ([(0, OnTestFileStart), (2, OnTestStart)],
      [''modern: sum.test.js'', ''legacy: sum.test.js''], None)"
proof -
  have s: "fileStart_spec (reporters sampleDispatcher) ''sum.test.js'' [] =
      ([(0, OnTestFileStart), (2, OnTestStart)],
       [''modern: sum.test.js'', ''legacy: sum.test.js''], None)"
    by (simp add: sampleDispatcher_reporters fileStart_spec_def chosen_spec_def
        fileStartChoice_def preferred_def modernReporter_def silentReporter_def
        legacyReporter_def)
  have r: "fileResult_spec (reporters sampleDispatcher) ''sum.test.js'' sampleResult 0 =
      ([(0, OnTestFileResult), (2, OnTestResult)],
       sampleResult\<lparr>coverage := Some ''sum.test.js'', console := Some [''sum.test.js'']\<rparr>, None)"
    by (simp add: sampleDispatcher_reporters sample_fileResult_spec)
  from dispatch_preferred_else_legacy [of sampleDispatcher "''sum.test.js''" "[]" sampleResult 0]
    s r
  show ?thesis by simp
qed

text \<open>
  C4 as first stated, that for every reporter sequence a reporter's hook is invoked if
  present, fails where an earlier hook rejects: the reporter registered second has both
  preferred methods, and neither dispatch calls it.
\<close>

theorem dispatch_stops_at_rejection_counterexample:
  "reporters failingFirstDispatcher = [failingReporter, modernReporter] \<and>
   onTestFileResult_hook modernReporter \<noteq> None \<and>
   onTestFileStart_hook modernReporter \<noteq> None \<and>
   onTestFileResult failingFirstDispatcher ''sum.test.js'' sampleResult 0 =
     ([(0, OnTestFileResult)], sampleResult, Some (Rejected ''boom'')) \<and>
   (1, OnTestFileResult) \<notin>
     set (fst (onTestFileResult failingFirstDispatcher ''sum.test.js'' sampleResult 0)) \<and>
   (1, OnTestFileStart) \<notin>
     set (fst (onTestFileStart failingFirstDispatcher ''sum.test.js'' [])) \<and>
   onTestFileStart failingFirstDispatcher ''sum.test.js'' [] =
     ([(0, OnTestFileStart)], [], Some (Rejected ''boom''))"
  by (simp add: failingFirstDispatcher_def register_def ReporterDispatcher_new_def
      onTestFileResult_def onTestFileStart_def failingReporter_def modernReporter_def)

text \<open>
  C5, as amended. With what the chosen hooks do to the object as the reference: when
  no call rejects, \<open>onTestFileResult\<close> returns the object the hooks left with
  \<open>sourceMaps\<close>, \<open>coverage\<close> and \<open>console\<close> set to \<open>undefined\<close> and every other field
  untouched; when a call rejects, the method rejects with it and assigns nothing, so
  the object is exactly as the hooks left it; with no reporter registered the three
  fields of the caller's object are cleared.
\<close>

theorem onTestFileResult_clears_payload:
  assumes "fileResult_spec (reporters this) test testResult results = (calls, afterHooks, rejection)"
  shows "(rejection = None \<longrightarrow>
            onTestFileResult this test testResult results =
              (calls, afterHooks\<lparr>sourceMaps := None, coverage := None, console := None\<rparr>, None)) \<and>
         (rejection \<noteq> None \<longrightarrow>
            onTestFileResult this test testResult results = (calls, afterHooks, rejection)) \<and>
         (reporters this = [] \<longrightarrow>
            onTestFileResult this test testResult results =
              ([], testResult\<lparr>sourceMaps := None, coverage := None, console := None\<rparr>, None))"
proof -
  from assms have "fileResultLoop 0 (reporters this) test testResult results =
      (calls, afterHooks, rejection)"
    by (simp add: fileResult_spec_def fileResultLoop_invokeAll)
  then show ?thesis
    by (cases rejection) (auto simp: onTestFileResult_def)
qed

theorem onTestFileResult_clears_payload_witness:
  "fileResult_spec (reporters sampleDispatcher) ''sum.test.js'' sampleResult 0 =
     ([(0, OnTestFileResult), (2, OnTestResult)],
      sampleResult\<lparr>coverage := Some ''sum.test.js'', console := Some [''sum.test.js'']\<rparr>, None) \<and>
   onTestFileResult sampleDispatcher ''sum.test.js'' sampleResult 0 =
     ([(0, OnTestFileResult), (2, OnTestResult)],
      sampleResult\<lparr>sourceMaps := None, coverage := None, console := None\<rparr>, None) \<and>
   fileResult_spec (reporters failingFirstDispatcher) ''sum.test.js'' sampleResult 0 =
     ([(0, OnTestFileResult)], sampleResult, Some (Rejected ''boom'')) \<and>
   onTestFileResult failingFirstDispatcher ''sum.test.js'' sampleResult 0 =
     ([(0, OnTestFileResult)], sampleResult, Some (Rejected ''boom'')) \<and>
   reporters (ReporterDispatcher_new :: (string, test_result, nat, string list) dispatcher) = [] \<and>
   onTestFileResult
     (ReporterDispatcher_new :: (string, test_result, nat, string list) dispatcher)
     ''sum.test.js'' sampleResult 0 =
     ([], sampleResult\<lparr>sourceMaps := None, coverage := None, console := None\<rparr>, None)"
proof -
  have a: "fileResult_spec (reporters sampleDispatcher) ''sum.test.js'' sampleResult 0 =
      ([(0, OnTestFileResult), (2, OnTestResult)],
       sampleResult\<lparr>coverage := Some ''sum.test.js'', console := Some [''sum.test.js'']\<rparr>, None)"
    by (simp add: sampleDispatcher_reporters sample_fileResult_spec)
  have b: "fileResult_spec (reporters failingFirstDispatcher) ''sum.test.js'' sampleResult 0 =
      ([(0, OnTestFileResult)], sampleResult, Some (Rejected ''boom''))"
    by (simp add: failingFirstDispatcher_def register_def ReporterDispatcher_new_def
        fileResult_spec_def chosen_spec_def fileResultChoice_def preferred_def
        failingReporter_def modernReporter_def)
  have c: "fileResult_spec
      (reporters (ReporterDispatcher_new :: (string, test_result, nat, string list) dispatcher))
      ''sum.test.js'' sampleResult 0 = ([], sampleResult, None)"
    by (simp add: ReporterDispatcher_new_def fileResult_spec_def chosen_spec_def)
  have e: "reporters (ReporterDispatcher_new :: (string, test_result, nat, string list) dispatcher) = []"
    by (simp add: ReporterDispatcher_new_def)
  have u: "sampleResult\<lparr>coverage := Some ''sum.test.js'', console := Some [''sum.test.js''],
      sourceMaps := None, coverage := None, console := None\<rparr> =
      sampleResult\<lparr>sourceMaps := None, coverage := None, console := None\<rparr>"
    by simp
  from onTestFileResult_clears_payload [OF a] onTestFileResult_clears_payload [OF b]
    onTestFileResult_clears_payload [OF c] a b e u
  show ?thesis by simp
qed

text \<open>
  C5 as first stated, that the three fields are cleared on every call once all
  registered reporters have been invoked, fails where the last reporter's hook rejects:
  the only registered reporter has been called, and \<open>sourceMaps\<close> and \<open>console\<close> still
  hold their values.
\<close>

theorem onTestFileResult_rejection_counterexample:
  "reporters failingOnlyDispatcher = [failingReporter] \<and>
   fst (onTestFileResult failingOnlyDispatcher ''sum.test.js'' sampleResult 0) =
     [(0, OnTestFileResult)] \<and>
   snd (snd (onTestFileResult failingOnlyDispatcher ''sum.test.js'' sampleResult 0)) =
     Some (Rejected ''boom'') \<and>
   sourceMaps (fst (snd (onTestFileResult failingOnlyDispatcher ''sum.test.js'' sampleResult 0))) =
     Some [(''sum.js'', ''sum.js.map'')] \<and>
   console (fst (snd (onTestFileResult failingOnlyDispatcher ''sum.test.js'' sampleResult 0))) =
     Some [''log'']"
  by (simp add: failingOnlyDispatcher_def register_def ReporterDispatcher_new_def
      onTestFileResult_def failingReporter_def sampleResult_def)

section \<open>Properties of the watch controller\<close>

declare TestWatcher_new_def [simp] setState_interrupted_def [simp]

lemma singleRun_frame:
  "singleRun s \<Longrightarrow> pending s' = pending s \<Longrightarrow> isRunning s' = isRunning s \<Longrightarrow>
   testWatcher s' = testWatcher s \<Longrightarrow> length (tokens s') = length (tokens s) \<Longrightarrow>
   runs s' = runs s \<Longrightarrow> singleRun s'"
  by (simp add: singleRun_def)

lemma singleRun_startRun: "singleRun s \<Longrightarrow> singleRun (startRun ov s)"
  by (cases "pending s") (auto simp: singleRun_def startRun_def Let_def)

lemma writeCurrentPattern_frame [simp]:
  "pending (writeCurrentPattern E s) = pending s"
  "isRunning (writeCurrentPattern E s) = isRunning s"
  "testWatcher (writeCurrentPattern E s) = testWatcher s"
  "tokens (writeCurrentPattern E s) = tokens s"
  "runs (writeCurrentPattern E s) = runs s"
  by (simp_all add: writeCurrentPattern_def Let_def)

lemma singleRun_onKeypress: "singleRun s \<Longrightarrow> onKeypress E key s = Inr s' \<Longrightarrow> singleRun s'"
  unfolding onKeypress_def Let_def
  by (auto split: if_splits option.splits
      intro!: singleRun_startRun elim!: singleRun_frame)

lemma singleRun_onChange: "singleRun s \<Longrightarrow> singleRun (onChange h s)"
  unfolding onChange_def by (rule singleRun_startRun) (erule singleRun_frame, simp_all)

lemma singleRun_settled:
  "singleRun s \<Longrightarrow> t \<in> set (pending s) \<Longrightarrow> pending s = [t]"
  by (cases "pending s") (auto simp: singleRun_def)

lemma singleRun_runFulfilled:
  "singleRun s \<Longrightarrow> t \<in> set (pending s) \<Longrightarrow> singleRun (runFulfilled E t results s)"
  by (frule (1) singleRun_settled)
    (simp add: singleRun_def runFulfilled_def onFulfilled_def onComplete_def Let_def)

lemma singleRun_runRejected:
  "singleRun s \<Longrightarrow> t \<in> set (pending s) \<Longrightarrow> singleRun (runRejected t stack s)"
  by (frule (1) singleRun_settled) (simp add: singleRun_def runRejected_def onRejected_def)

lemma singleRun_watch: "singleRun (watch a h)"
  unfolding watch_def by (rule singleRun_startRun) (simp add: singleRun_def)

lemma reachable_singleRun: "reachable E a h s \<Longrightarrow> singleRun s"
proof (induction rule: reachable.induct)
  case started
  show ?case by (rule singleRun_watch)
next
  case (keypress s key s')
  then show ?case by (blast intro: singleRun_onKeypress)
next
  case (changed s h')
  then show ?case by (blast intro: singleRun_onChange)
next
  case (fulfilled s t results)
  then show ?case by (blast intro: singleRun_runFulfilled)
next
  case (rejected s t stack)
  then show ?case by (blast intro: singleRun_runRejected)
qed

lemma startRun_isRunning: "isRunning s \<Longrightarrow> startRun ov s = s"
  by (simp add: startRun_def)

lemma reachable_pending_isRunning:
  "reachable E a h s \<Longrightarrow> t \<in> set (pending s) \<Longrightarrow>
   isRunning s \<and> testWatcher s = Some t \<and> t < length (tokens s)"
  by (drule reachable_singleRun) (auto simp: singleRun_def list_all_iff)

lemma terminal_distinctKeys: "distinctKeys (KEYS terminalEnv)"
  by (simp add: terminalEnv_def terminalKeys_def distinctKeys_def)

lemma watch_watchArgv:
  "watch watchArgv 0 =
     \<lparr>argv = watchArgv, hasteContext = 0, currentPattern = Some [],
      hasSnapshotFailure = False, isEnteringPattern = False, isRunning = True,
      testWatcher = Some 0, displayHelp = True, searchSource = 0, tokens = [False],
      pipe = [CLEAR, PreRunMessage], stderr = [],
      runs = [\<lparr>run_hasteContext = 0, run_overrideConfig = [], run_testWatcher = 0\<rparr>],
      pending = [0]\<rparr>"
  by (simp add: watch_def startRun_def watchArgv_def setWatchMode_def)

lemma editingSession_state:
  "case editingSession of
     Inl e \<Rightarrow> False
   | Inr s \<Rightarrow> isEnteringPattern s \<and> currentPattern s = Some ''b'' \<and>
       argv_underscore (argv s) = [Some ''foo''] \<and> \<not> isRunning s \<and> length (runs s) = 2"
  by code_simp

lemma case_Inr_holds: "(case x of Inl e \<Rightarrow> False | Inr s \<Rightarrow> P s) \<Longrightarrow> \<exists>s. x = Inr s \<and> P s"
  by (cases x) simp_all

lemma runRejected_frame:
  "isRunning (runRejected t stack s) = isRunning s \<and>
   testWatcher (runRejected t stack s) = testWatcher s \<and>
   tokens (runRejected t stack s) = tokens s"
  by (simp add: runRejected_def onRejected_def)

lemma runFulfilled_cleanup:
  "\<not> isRunning (runFulfilled E t results s) \<and>
   testWatcher (runFulfilled E t results s) = Some (length (tokens s)) \<and>
   tokens (runFulfilled E t results s) = tokens s @ [False]"
  by (simp add: runFulfilled_def onFulfilled_def onComplete_def Let_def)

text \<open>
  C1. The claim: whether a run started by \<open>startRun\<close> settles successfully or by
  rejection, the cleanup runs (the Running flag is cleared, a replacement token is
  allocated), so a rejection never leaves the controller running. The code does the
  cleanup in the completion callback only (\<open>runFulfilled_cleanup\<close>); the rejection
  handler logs the error and changes nothing else (\<open>runRejected_frame\<close>). Evaluated on
  the first run of the concrete terminal: after the rejection \<open>isRunning\<close> is still true
  with no run pending, the token is the old one, \<open>startRun\<close> is a no-op and enter only
  marks the stale token; after a completion the flag is cleared and a second token
  exists.
\<close>

theorem runRejected_leaves_isRunning:
  "isRunning rejectedFirstRun \<and>
   pending rejectedFirstRun = [] \<and>
   testWatcher rejectedFirstRun = Some 0 \<and>
   tokens rejectedFirstRun = [False] \<and>
   stderr rejectedFirstRun = [Red ''Error: boom''] \<and>
   startRun [] rejectedFirstRun = rejectedFirstRun \<and>
   onKeypress terminalEnv ''0d'' rejectedFirstRun =
     Inr (rejectedFirstRun\<lparr>tokens := [True]\<rparr>) \<and>
   \<not> isRunning firstRunDone \<and>
   testWatcher firstRunDone = Some 1 \<and>
   tokens firstRunDone = [False, False]"
proof -
  have r: "rejectedFirstRun = (watch watchArgv 0)\<lparr>pending := [], stderr := [Red ''Error: boom'']\<rparr>"
    by (simp add: rejectedFirstRun_def runRejected_def onRejected_def watch_watchArgv)
  have f: "\<not> isRunning firstRunDone \<and> testWatcher firstRunDone = Some 1 \<and>
      tokens firstRunDone = [False, False]"
    by (simp add: firstRunDone_def runFulfilled_def onFulfilled_def onComplete_def Let_def
        watch_watchArgv)
  have k: "onKeypress terminalEnv ''0d'' rejectedFirstRun = Inr (rejectedFirstRun\<lparr>tokens := [True]\<rparr>)"
    by (simp add: r watch_watchArgv onKeypress_def Let_def terminalEnv_def terminalKeys_def)
  have a: "isRunning rejectedFirstRun \<and> pending rejectedFirstRun = [] \<and>
      testWatcher rejectedFirstRun = Some 0 \<and> tokens rejectedFirstRun = [False] \<and>
      stderr rejectedFirstRun = [Red ''Error: boom'']"
    by (simp add: r watch_watchArgv)
  then have d: "startRun [] rejectedFirstRun = rejectedFirstRun"
    by (simp add: startRun_def)
  from a d k f show ?thesis by simp
qed

text \<open>
  C2. In every state the controller can reach, at most one run is pending, and a
  pending run means \<open>isRunning\<close>; and in any state with \<open>isRunning\<close>, \<open>startRun\<close> returns the
  state it was given: no second run, nothing queued, nothing changed.
\<close>

theorem startRun_at_most_one_run:
  "(reachable E a h s \<longrightarrow> length (pending s) \<le> 1) \<and>
   (reachable E a h s \<and> pending s \<noteq> [] \<longrightarrow> isRunning s) \<and>
   (isRunning s \<longrightarrow> startRun overrideConfig s = s)"
proof -
  have "reachable E a h s \<Longrightarrow> length (pending s) \<le> 1"
    by (drule reachable_singleRun) (simp add: singleRun_def)
  moreover have "reachable E a h s \<Longrightarrow> pending s \<noteq> [] \<Longrightarrow> isRunning s"
    using reachable_pending_isRunning [of E a h s "hd (pending s)"] by simp
  ultimately show ?thesis by (auto simp: startRun_isRunning)
qed

theorem startRun_at_most_one_run_witness:
  "reachable terminalEnv watchArgv 0 (watch watchArgv 0) \<and>
   pending (watch watchArgv 0) = [0] \<and>
   isRunning (watch watchArgv 0) \<and>
   startRun [(''updateSnapshot'', True)] (watch watchArgv 0) = watch watchArgv 0"
proof -
  have r: "reachable terminalEnv watchArgv 0 (watch watchArgv 0)"
    by (rule reachable.started)
  have p: "pending (watch watchArgv 0) = [0]"
    by (simp add: watch_def startRun_def)
  from startRun_at_most_one_run [of terminalEnv watchArgv 0 "watch watchArgv 0"
      "[(''updateSnapshot'', True)]"] r p
  show ?thesis by simp
qed

text \<open>
  C3. Outside pattern entry, while a run is pending, each of the keys quit, enter,
  watch-all, watch-changed-only and enter-pattern changes one thing only: the
  \<open>interrupted\<close> flag of the pending run's token becomes true. The calls of \<open>runJest\<close>,
  the arguments (the mode), the output and every variable are as before.
\<close>

theorem onKeypress_abort_only_interrupts:
  assumes "reachable E a h s" and "distinctKeys (KEYS E)"
    and "\<not> isEnteringPattern s" and "t \<in> set (pending s)"
    and "key \<in> {KEY_Q (KEYS E), KEY_ENTER (KEYS E), KEY_A (KEYS E), KEY_O (KEYS E), KEY_P (KEYS E)}"
  shows "onKeypress E key s = Inr (s\<lparr>tokens := (tokens s)[t := True]\<rparr>) \<and> t < length (tokens s)"
proof -
  from assms(1,4) have run: "isRunning s" "testWatcher s = Some t" "t < length (tokens s)"
    using reachable_pending_isRunning by blast+
  from assms(2,5) have "key \<noteq> KEY_CONTROL_C (KEYS E)" "key \<noteq> KEY_CONTROL_D (KEYS E)"
    by (auto simp: distinctKeys_def)
  with run assms(3,5) show ?thesis
    by (simp add: onKeypress_def Let_def)
qed

theorem onKeypress_abort_only_interrupts_witness:
  "reachable terminalEnv watchArgv 0 (watch watchArgv 0) \<and>
   distinctKeys (KEYS terminalEnv) \<and>
   \<not> isEnteringPattern (watch watchArgv 0) \<and>
   0 \<in> set (pending (watch watchArgv 0)) \<and>
   ''70'' \<in> {KEY_Q (KEYS terminalEnv), KEY_ENTER (KEYS terminalEnv), KEY_A (KEYS terminalEnv),
     KEY_O (KEYS terminalEnv), KEY_P (KEYS terminalEnv)} \<and>
   onKeypress terminalEnv ''70'' (watch watchArgv 0) =
     Inr ((watch watchArgv 0)\<lparr>tokens := [True]\<rparr>)"
proof -
  have r: "reachable terminalEnv watchArgv 0 (watch watchArgv 0)"
    by (rule reachable.started)
  have e: "\<not> isEnteringPattern (watch watchArgv 0)"
    by (simp add: watch_watchArgv)
  have p: "0 \<in> set (pending (watch watchArgv 0))"
    by (simp add: watch_watchArgv)
  have k: "''70'' \<in> {KEY_Q (KEYS terminalEnv), KEY_ENTER (KEYS terminalEnv),
      KEY_A (KEYS terminalEnv), KEY_O (KEYS terminalEnv), KEY_P (KEYS terminalEnv)}"
    by (simp add: terminalEnv_def terminalKeys_def)
  have t: "tokens (watch watchArgv 0) = [False]"
    by (simp add: watch_watchArgv)
  from onKeypress_abort_only_interrupts [OF r terminal_distinctKeys e p k] r
    terminal_distinctKeys e p k t
  show ?thesis by simp
qed

text \<open>
  C8. In pattern entry, escape leaves pattern entry, writes the usage banner between
  hiding and showing the cursor, and sets the current pattern to the committed one,
  \<open>argv._[0]\<close> (\<open>undefined\<close> when there is none); nothing else changes, so no run starts.
  In the witness session the committed pattern is \<open>foo\<close>, the edit buffer is \<open>b\<close>, and
  escape restores \<open>foo\<close>.
\<close>

theorem onKeypress_escape_restores_committed:
  assumes "distinctKeys (KEYS E)" and "isEnteringPattern s"
  shows "onKeypress E (KEY_ESCAPE (KEYS E)) s =
     Inr (s\<lparr>isEnteringPattern := False,
            pipe := pipe s @
              [Escape cursorHide, Escape clearScreen,
               Text (usage (argv s) (hasSnapshotFailure s) [Plain nl]), Escape cursorShow],
            currentPattern := (case argv_underscore (argv s) of [] \<Rightarrow> None | p # _ \<Rightarrow> p)\<rparr>)"
proof -
  from assms(1) have "KEY_ESCAPE (KEYS E) \<noteq> KEY_CONTROL_C (KEYS E)"
    "KEY_ESCAPE (KEYS E) \<noteq> KEY_CONTROL_D (KEYS E)" "KEY_ESCAPE (KEYS E) \<noteq> KEY_ENTER (KEYS E)"
    by (auto simp: distinctKeys_def)
  with assms(2) show ?thesis
    by (simp add: onKeypress_def Let_def)
qed

theorem onKeypress_escape_restores_committed_witness:
  "distinctKeys (KEYS terminalEnv) \<and>
   (\<exists>s s'. editingSession = Inr s \<and> isEnteringPattern s \<and> currentPattern s = Some ''b'' \<and>
      onKeypress terminalEnv ''1b'' s = Inr s' \<and>
      currentPattern s' = Some ''foo'' \<and> \<not> isEnteringPattern s' \<and>
      runs s' = runs s \<and> isRunning s' = isRunning s \<and>
      pipe s' = pipe s @
        [Escape cursorHide, Escape clearScreen,
         Text (usage (argv s) (hasSnapshotFailure s) [Plain nl]), Escape cursorShow])"
proof -
  from case_Inr_holds [OF editingSession_state]
  obtain s where s: "editingSession = Inr s"
    "isEnteringPattern s" "currentPattern s = Some ''b''"
    "argv_underscore (argv s) = [Some ''foo'']"
    by blast
  have esc: "KEY_ESCAPE (KEYS terminalEnv) = ''1b''"
    by (simp add: terminalEnv_def terminalKeys_def)
  define s' where "s' = s\<lparr>isEnteringPattern := False,
      pipe := pipe s @
        [Escape cursorHide, Escape clearScreen,
         Text (usage (argv s) (hasSnapshotFailure s) [Plain nl]), Escape cursorShow],
      currentPattern := Some ''foo''\<rparr>"
  from onKeypress_escape_restores_committed [OF terminal_distinctKeys s(2)]
  have k: "onKeypress terminalEnv ''1b'' s = Inr s'"
    by (simp add: esc s(4) s'_def)
  have p: "currentPattern s' = Some ''foo'' \<and> \<not> isEnteringPattern s' \<and>
      runs s' = runs s \<and> isRunning s' = isRunning s \<and>
      pipe s' = pipe s @
        [Escape cursorHide, Escape clearScreen,
         Text (usage (argv s) (hasSnapshotFailure s) [Plain nl]), Escape cursorShow]"
    by (simp add: s'_def)
  from terminal_distinctKeys s(1,2,3) k p show ?thesis by blast
qed

text \<open>
  C9. Outside pattern entry, while a run is active (the flag is set, or the state is
  reachable with a run pending), the update-snapshots key leaves the state as it is:
  the key is not among the abort keys, and the \<open>startRun\<close> it triggers with the
  snapshot-update override is dropped.
\<close>

theorem onKeypress_update_snapshots_dropped:
  assumes "distinctKeys (KEYS E)" and "\<not> isEnteringPattern s"
    and "isRunning s \<or> (reachable E a h s \<and> pending s \<noteq> [])"
  shows "KEY_U (KEYS E) \<notin> set [KEY_Q (KEYS E), KEY_ENTER (KEYS E), KEY_A (KEYS E),
           KEY_O (KEYS E), KEY_P (KEYS E)] \<and>
         startRun [(''updateSnapshot'', True)] s = s \<and>
         onKeypress E (KEY_U (KEYS E)) s = Inr s"
proof -
  from assms(3) have run: "isRunning s"
    using reachable_pending_isRunning [of E a h s "hd (pending s)"] by auto
  from assms(1) have k: "KEY_U (KEYS E) \<notin> set [KEY_Q (KEYS E), KEY_ENTER (KEYS E), KEY_A (KEYS E),
      KEY_O (KEYS E), KEY_P (KEYS E)]"
    "KEY_U (KEYS E) \<noteq> KEY_CONTROL_C (KEYS E)" "KEY_U (KEYS E) \<noteq> KEY_CONTROL_D (KEYS E)"
    by (auto simp: distinctKeys_def)
  from run have d: "startRun [(''updateSnapshot'', True)] s = s"
    by (rule startRun_isRunning)
  from k have "onKeypress E (KEY_U (KEYS E)) s = Inr (startRun [(''updateSnapshot'', True)] s)"
    using assms(2) by (simp add: onKeypress_def Let_def)
  with k(1) d show ?thesis by simp
qed

theorem onKeypress_update_snapshots_dropped_witness:
  "distinctKeys (KEYS terminalEnv) \<and>
   \<not> isEnteringPattern (watch watchArgv 0) \<and>
   isRunning (watch watchArgv 0) \<and>
   reachable terminalEnv watchArgv 0 (watch watchArgv 0) \<and>
   pending (watch watchArgv 0) \<noteq> [] \<and>
   KEY_U (KEYS terminalEnv) = ''75'' \<and>
   onKeypress terminalEnv ''75'' (watch watchArgv 0) = Inr (watch watchArgv 0)"
proof -
  have r: "reachable terminalEnv watchArgv 0 (watch watchArgv 0)"
    by (rule reachable.started)
  have e: "\<not> isEnteringPattern (watch watchArgv 0)"
    by (simp add: watch_watchArgv)
  have i: "isRunning (watch watchArgv 0) \<or>
      (reachable terminalEnv watchArgv 0 (watch watchArgv 0) \<and> pending (watch watchArgv 0) \<noteq> [])"
    by (simp add: watch_watchArgv)
  have p: "isRunning (watch watchArgv 0) \<and> pending (watch watchArgv 0) \<noteq> []"
    by (simp add: watch_watchArgv)
  have u: "KEY_U (KEYS terminalEnv) = ''75''"
    by (simp add: terminalEnv_def terminalKeys_def)
  from onKeypress_update_snapshots_dropped [OF terminal_distinctKeys e i]
    terminal_distinctKeys r e p u
  show ?thesis by simp
qed

end
